theory Spec2Isabelle
  imports Main
begin

section \<open>Shared types\<close>

text \<open>
  The embedding follows the TypeScript sources at the level of their declared types.
  An object used as a dictionary (\<^verbatim>\<open>{ [name: string]: T }\<close>) is a map from
  property names to values, or an association list where the serialisation order
  matters. Reading a property of such an object also finds the names every object
  inherits from \<^verbatim>\<open>Object.prototype\<close> (\<open>js_get\<close> below). A configuration that
  names a fragment or a version \<^verbatim>\<open>__proto__\<close> is outside the model: storing under
  that name replaces the prototype of the dictionary. An optional property or an
  \<^verbatim>\<open>undefined\<close> value is \<open>None\<close>. A thrown
  error, and the rejection of the promise of an \<^verbatim>\<open>async\<close> method, is the \<open>Inl\<close>
  branch of a sum. Everything the code reads from the network is an argument of the
  model, and everything it does to the outside (an emitted event, a running interval
  timer, a network request, a write to the HTTP response) is recorded in the value the
  model returns.
\<close>

text \<open>
  Constants imported from \<^verbatim>\<open>./config\<close> and \<^verbatim>\<open>./enums\<close>. Those modules are not
  among the sources, so the values are a parameter of every definition that reads one.
  \<open>STREAM_value\<close> is the run-time string of \<^verbatim>\<open>FRAGMENT_RENDER_MODES.STREAM\<close>.
\<close>

record constants =
  DEFAULT_POLLING_INTERVAL :: nat
  DEFAULT_CONTENT_TIMEOUT :: nat
  RENDER_MODE_QUERY_NAME :: string
  PREVIEW_PARTIAL_QUERY_NAME :: string
  DEFAULT_MAIN_PARTIAL :: string
  API_ROUTE_PREFIX :: string
  STREAM_value :: string

datatype FRAGMENT_RENDER_MODES = STREAM | PREVIEW

datatype EVENTS = GATEWAY_READY | GATEWAY_UPDATED

text \<open>
  Reading \<^verbatim>\<open>obj[k]\<close> on a plain object whose stored properties are \<open>obj\<close>: the
  stored value, or a member of \<^verbatim>\<open>Object.prototype\<close> (a function, or for
  \<^verbatim>\<open>__proto__\<close> the prototype object itself; each is truthy and has no further
  property the program reads), or \<^verbatim>\<open>undefined\<close>.
\<close>

definition object_prototype_names :: "string list" where
  "object_prototype_names =
     [''constructor'', ''__defineGetter__'', ''__defineSetter__'', ''hasOwnProperty'',
      ''__lookupGetter__'', ''__lookupSetter__'', ''isPrototypeOf'', ''propertyIsEnumerable'',
      ''toString'', ''valueOf'', ''__proto__'', ''toLocaleString'']"

datatype 'a property = Own 'a | Inherited | Undefined

definition js_get :: "(string \<rightharpoonup> 'a) \<Rightarrow> string \<Rightarrow> 'a property" where
  "js_get obj k =
     (case obj k of
        Some v \<Rightarrow> Own v
      | None \<Rightarrow> if k \<in> set object_prototype_names then Inherited else Undefined)"

fun is_undefined :: "'a property \<Rightarrow> bool" where
  "is_undefined Undefined = True"
| "is_undefined (Own v) = False"
| "is_undefined Inherited = False"

text \<open>What a template literal prints for an inherited member, and for
  \<^verbatim>\<open>obj[k]\<close> of an object with string properties.\<close>

definition inherited_text :: "string \<Rightarrow> string" where
  "inherited_text k =
     (if k = ''__proto__'' then ''[object Object]''
      else if k = ''constructor'' then ''function Object() { [native code] }''
      else ''function '' @ k @ ''() { [native code] }'')"

definition property_text :: "(string \<rightharpoonup> string) \<Rightarrow> string \<Rightarrow> string" where
  "property_text obj k =
     (case js_get obj k of
        Own v \<Rightarrow> v
      | Inherited \<Rightarrow> inherited_text k
      | Undefined \<Rightarrow> ''undefined'')"

text \<open>\<^verbatim>\<open>IFragmentBFFRender\<close> (the \<^verbatim>\<open>middlewares\<close> field, a list of functions, is left out).\<close>

record IFragmentBFFRender =
  static :: "bool option"
  url :: string
  routeCache :: "nat option"
  selfReplace :: "bool option"
  cacheControl :: "string option"
  placeholder :: "bool option"
  timeout :: "nat option"

text \<open>\<^verbatim>\<open>IExposeFragment\<close>: one fragment descriptor of a gateway's catalog. An asset is
  its name and file name; a dependency is its name.\<close>

record IExposeFragment =
  version :: string
  render :: IFragmentBFFRender
  assets :: "(string \<times> string) list"
  dependencies :: "string list"
  testCookie :: string

text \<open>
  \<^verbatim>\<open>IExposeConfig\<close>: the catalog a gateway serves, \<^verbatim>\<open>{fragments, hash}\<close>. Every
  \<^verbatim>\<open>res.json()\<close> builds a new object, so the record also carries the identity of the
  object (\<open>oid\<close>): two catalogs with the same content and different \<open>oid\<close> are
  different objects.
\<close>

record IExposeConfig =
  oid :: nat
  fragments :: "(string \<times> IExposeFragment) list"
  hash :: string

section \<open>\<^verbatim>\<open>GatewayStorefrontInstance\<close>: the discovery client (gateway.ts)\<close>

text \<open>
  The instance (\<open>name\<close>, \<open>url\<close>, \<open>config\<close>, \<open>intervalId\<close>) together with the part
  of the environment its methods act on: \<open>emitted\<close> is the sequence of
  \<^verbatim>\<open>events.emit\<close> calls made so far (the event and the name of the gateway passed as
  \<^verbatim>\<open>this\<close>), \<open>timers\<close> maps every interval timer of the event loop that is still
  scheduled to its period, and \<open>nextTimer\<close> is the identity of the next
  \<^verbatim>\<open>Timer\<close> object \<^verbatim>\<open>setInterval\<close> will create. A \<^verbatim>\<open>Timer\<close> is an object, so
  \<^verbatim>\<open>if (this.intervalId)\<close> tests for \<^verbatim>\<open>null\<close> only.
\<close>

record GatewayStorefrontInstance =
  gw_name :: string
  gw_url :: string
  config :: "IExposeConfig option"
  intervalId :: "nat option"
  emitted :: "(EVENTS \<times> string) list"
  timers :: "nat \<rightharpoonup> nat"
  nextTimer :: nat

text \<open>What one \<^verbatim>\<open>fetch(this.url).then(res => res.json())\<close> comes back with.\<close>

datatype catalog_response = NetworkError | DecodeError | Catalog IExposeConfig

definition emit :: "EVENTS \<Rightarrow> GatewayStorefrontInstance \<Rightarrow> GatewayStorefrontInstance" where
  "emit e g = g\<lparr>emitted := emitted g @ [(e, gw_name g)]\<rparr>"

text \<open>\<^verbatim>\<open>update(data)\<close>, lines 69-79.\<close>

definition update :: "IExposeConfig \<Rightarrow> GatewayStorefrontInstance \<Rightarrow> GatewayStorefrontInstance" where
  "update data g =
     (case config g of
        None \<Rightarrow> emit GATEWAY_READY (g\<lparr>config := Some data\<rparr>)
      | Some c \<Rightarrow>
          if hash data \<noteq> hash c
          then emit GATEWAY_UPDATED (g\<lparr>config := Some data\<rparr>)
          else g)"

text \<open>\<^verbatim>\<open>fetch()\<close>, lines 55-63: a failure of the request or of the decoding is
  swallowed by the \<^verbatim>\<open>catch\<close>.\<close>

definition fetch :: "catalog_response \<Rightarrow> GatewayStorefrontInstance \<Rightarrow> GatewayStorefrontInstance" where
  "fetch r g = (case r of Catalog data \<Rightarrow> update data g | NetworkError \<Rightarrow> g | DecodeError \<Rightarrow> g)"

text \<open>The constructor, lines 29-33: the fields are initialised and one fetch is issued.
  \<open>t0\<close> is the identity of the next timer object of the event loop.\<close>

definition new_GatewayStorefrontInstance ::
  "string \<Rightarrow> string \<Rightarrow> nat \<Rightarrow> catalog_response \<Rightarrow> GatewayStorefrontInstance" where
  "new_GatewayStorefrontInstance n u t0 r =
     fetch r \<lparr>gw_name = n, gw_url = u, config = None, intervalId = None, emitted = [],
              timers = Map.empty, nextTimer = t0\<rparr>"

text \<open>\<^verbatim>\<open>setInterval\<close> and \<^verbatim>\<open>clearInterval\<close> of the event loop. Node replaces
  a period below 1 or above \<open>2^31 - 1\<close> by 1.\<close>

definition setInterval :: "nat \<Rightarrow> GatewayStorefrontInstance \<Rightarrow> nat \<times> GatewayStorefrontInstance" where
  "setInterval period g =
     (nextTimer g,
      g\<lparr>timers := (timers g)(nextTimer g \<mapsto>
                 (if period < 1 \<or> 2147483647 < period then 1 else period)),
        nextTimer := Suc (nextTimer g)\<rparr>)"

definition clearInterval :: "nat \<Rightarrow> GatewayStorefrontInstance \<Rightarrow> GatewayStorefrontInstance" where
  "clearInterval t g = g\<lparr>timers := (timers g)(t := None)\<rparr>"

text \<open>\<^verbatim>\<open>startUpdating(pollingInterval = DEFAULT_POLLING_INTERVAL)\<close>, lines 39-41.\<close>

definition startUpdating ::
  "constants \<Rightarrow> nat option \<Rightarrow> GatewayStorefrontInstance \<Rightarrow> GatewayStorefrontInstance" where
  "startUpdating K pollingInterval g =
     (let period = (case pollingInterval of None \<Rightarrow> DEFAULT_POLLING_INTERVAL K | Some p \<Rightarrow> p);
          (t, g') = setInterval period g
      in g'\<lparr>intervalId := Some t\<rparr>)"

text \<open>\<^verbatim>\<open>stopUpdating()\<close>, lines 46-50. The field \<open>intervalId\<close> is not reset.\<close>

definition stopUpdating :: "GatewayStorefrontInstance \<Rightarrow> GatewayStorefrontInstance" where
  "stopUpdating g = (case intervalId g of None \<Rightarrow> g | Some t \<Rightarrow> clearInterval t g)"

text \<open>The event loop fires timer \<open>t\<close>: when it is still scheduled its callback, the
  bound \<^verbatim>\<open>fetch\<close>, runs and receives response \<open>r\<close>.\<close>

definition fire :: "nat \<Rightarrow> catalog_response \<Rightarrow> GatewayStorefrontInstance \<Rightarrow> GatewayStorefrontInstance" where
  "fire t r g = (if t \<in> dom (timers g) then fetch r g else g)"

text \<open>What can happen to an instance after its construction, and a run of such steps.\<close>

datatype step = StartUpdating "nat option" | StopUpdating | Fire nat catalog_response

fun do_step :: "constants \<Rightarrow> step \<Rightarrow> GatewayStorefrontInstance \<Rightarrow> GatewayStorefrontInstance" where
  "do_step K (StartUpdating p) g = startUpdating K p g"
| "do_step K StopUpdating g = stopUpdating g"
| "do_step K (Fire t r) g = fire t r g"

fun run :: "constants \<Rightarrow> step list \<Rightarrow> GatewayStorefrontInstance \<Rightarrow> GatewayStorefrontInstance" where
  "run K [] g = g"
| "run K (s # ss) g = run K ss (do_step K s g)"

section \<open>\<^verbatim>\<open>FragmentBFF\<close>: a fragment on the gateway side (fragment.ts)\<close>

text \<open>A thrown value: \<^verbatim>\<open>new Error(message)\<close>, or a \<^verbatim>\<open>TypeError\<close> of the run time.\<close>

datatype error = Error string | TypeError string

text \<open>The object \<^verbatim>\<open>content\<close> returns, \<^verbatim>\<open>{main: string, [name: string]: string}\<close>, in
  the order of its properties; the request object handed to a handler.\<close>

type_synonym partials = "(string \<times> string) list"

type_synonym request_object = "(string \<times> string) list"

text \<open>
  \<^verbatim>\<open>IFragmentHandler\<close>. The three functions are code of the fragment's author: each
  may throw, and \<^verbatim>\<open>data\<close> may be missing from a handler module (\<^verbatim>\<open>render\<close> tests
  for it). \<open>'d\<close> is the type of what \<^verbatim>\<open>data\<close> resolves to.
\<close>

record 'd IFragmentHandler =
  content :: "request_object \<Rightarrow> 'd option \<Rightarrow> error + partials"
  handler_placeholder :: "error + string"
  data :: "(request_object \<Rightarrow> error + 'd) option"

record 'd IFragmentBFFVersion =
  version_assets :: "(string \<times> string) list"
  version_dependencies :: "string list"
  handler :: "'d IFragmentHandler option"

text \<open>\<^verbatim>\<open>IFragmentBFF\<close>, the configuration of one fragment. The property names of
  \<^verbatim>\<open>versions\<close> are looked up with \<open>map_of\<close>.\<close>

record 'd IFragmentBFF =
  bff_name :: string
  bff_versions :: "(string \<times> 'd IFragmentBFFVersion) list"
  bff_version :: string
  bff_testCookie :: string
  bff_render :: IFragmentBFFRender

text \<open>The class \<^verbatim>\<open>FragmentBFF\<close>: its configuration and its private \<^verbatim>\<open>handler\<close>
  dictionary, from version to handler.\<close>

record 'd FragmentBFF =
  bff_config :: "'d IFragmentBFF"
  bff_handler :: "string \<rightharpoonup> 'd IFragmentHandler"

text \<open>
  \<^verbatim>\<open>prepareHandlers()\<close>, lines 110-120, a loop over \<^verbatim>\<open>Object.keys(versions)\<close>.
  \<open>require\<close> loads the module of a fragment name and version from
  \<^verbatim>\<open>src/fragments/\<close>; it gives \<open>None\<close> where Node's \<^verbatim>\<open>require\<close> throws.
\<close>

fun prepareHandlers ::
  "(string \<Rightarrow> string \<Rightarrow> 'd IFragmentHandler option) \<Rightarrow> string \<Rightarrow>
   (string \<times> 'd IFragmentBFFVersion) list \<Rightarrow> (string \<rightharpoonup> 'd IFragmentHandler) \<Rightarrow>
   error + (string \<rightharpoonup> 'd IFragmentHandler)" where
  "prepareHandlers require n [] h = Inr h"
| "prepareHandlers require n ((v, ver) # vs) h =
     (case handler ver of
        Some configurationHandler \<Rightarrow> prepareHandlers require n vs (h(v \<mapsto> configurationHandler))
      | None \<Rightarrow>
          (case require n v of
             None \<Rightarrow> Inl (Error (''Cannot find module '' @ n @ ''/'' @ v))
           | Some module \<Rightarrow> prepareHandlers require n vs (h(v \<mapsto> module))))"

definition new_FragmentBFF ::
  "(string \<Rightarrow> string \<Rightarrow> 'd IFragmentHandler option) \<Rightarrow> 'd IFragmentBFF \<Rightarrow> error + 'd FragmentBFF" where
  "new_FragmentBFF require cfg =
     (case prepareHandlers require (bff_name cfg) (bff_versions cfg) Map.empty of
        Inl e \<Rightarrow> Inl e
      | Inr h \<Rightarrow> Inr \<lparr>bff_config = cfg, bff_handler = h\<rparr>)"

text \<open>\<^verbatim>\<open>version || this.config.version\<close>: an absent or empty version gives the
  configured one.\<close>

definition version_or_live :: "'d FragmentBFF \<Rightarrow> string option \<Rightarrow> string" where
  "version_or_live f v =
     (case v of None \<Rightarrow> bff_version (bff_config f)
      | Some x \<Rightarrow> if x = [] then bff_version (bff_config f) else x)"

text \<open>\<^verbatim>\<open>async render(req, version?)\<close>, lines 81-98. A version that names an
  inherited member passes the test of line 84; the member has neither \<^verbatim>\<open>content\<close>
  nor \<^verbatim>\<open>data\<close>.\<close>

definition FragmentBFF_render ::
  "'d FragmentBFF \<Rightarrow> request_object \<Rightarrow> string option \<Rightarrow> error + partials" where
  "FragmentBFF_render f req v =
     (let targetVersion = version_or_live f v in
      case js_get (bff_handler f) targetVersion of
        Own h \<Rightarrow>
          if static (bff_render (bff_config f)) = Some True then content h req None
          else (case data h of
                  Some data_handler \<Rightarrow>
                    (case data_handler req of
                       Inl e \<Rightarrow> Inl e
                     | Inr d \<Rightarrow> content h req (Some d))
                | None \<Rightarrow>
                    Inl (Error (''Failed to find data handler for fragment. Fragment: '' @
                           bff_name (bff_config f) @ '', Version: '' @ version_or_live f v)))
      | Inherited \<Rightarrow>
          if static (bff_render (bff_config f)) = Some True
          then Inl (TypeError ''handler.content is not a function'')
          else Inl (Error (''Failed to find data handler for fragment. Fragment: '' @
                      bff_name (bff_config f) @ '', Version: '' @ version_or_live f v))
      | Undefined \<Rightarrow>
          Inl (Error (''Failed to find fragment version. Fragment: '' @
                 bff_name (bff_config f) @ '', Version: '' @ version_or_live f v)))"

text \<open>\<^verbatim>\<open>placeholder(req, version?)\<close>, lines 100-108.\<close>

definition FragmentBFF_placeholder ::
  "'d FragmentBFF \<Rightarrow> request_object \<Rightarrow> string option \<Rightarrow> error + string" where
  "FragmentBFF_placeholder f req v =
     (let fragmentVersion =
            (case v of
               None \<Rightarrow> bff_version (bff_config f)
             | Some x \<Rightarrow>
                 if x \<noteq> [] \<and> \<not> is_undefined (js_get (map_of (bff_versions (bff_config f))) x)
                 then x
                 else bff_version (bff_config f))
      in case js_get (bff_handler f) fragmentVersion of
           Own h \<Rightarrow> handler_placeholder h
         | Inherited \<Rightarrow> Inl (TypeError ''handler.placeholder is not a function'')
         | Undefined \<Rightarrow>
             Inl (Error (''Failed to find fragment version. Fragment: '' @
                    bff_name (bff_config f) @ '', Version: '' @ version_or_live f v)))"

section \<open>\<^verbatim>\<open>GatewayBFF\<close>: the gateway process (gateway.ts)\<close>

text \<open>The part of \<^verbatim>\<open>IGatewayBFFConfiguration\<close> the class reads.\<close>

record 'd IGatewayBFFConfiguration =
  gwc_name :: string
  gwc_url :: string
  port :: nat
  gwc_fragments :: "'d IFragmentBFF list"
  isMobile :: "bool option"

text \<open>The class \<^verbatim>\<open>GatewayBFF\<close>: its configuration and its private \<^verbatim>\<open>fragments\<close>
  dictionary. The catalog it exposes (\<^verbatim>\<open>exposedConfig\<close>) is not part of the model.\<close>

record 'd GatewayBFF =
  gateway_config :: "'d IGatewayBFFConfiguration"
  gateway_fragments :: "string \<rightharpoonup> 'd FragmentBFF"

text \<open>
  The constructor with \<^verbatim>\<open>createExposeConfig()\<close>, lines 87-92 and 108-126, as far as
  it fills \<^verbatim>\<open>this.fragments\<close>: for every configured fragment, in order, it reads
  \<^verbatim>\<open>fragment.versions[fragment.version].assets\<close>, which throws when
  \<^verbatim>\<open>versions\<close> has no property of the configured version's name, and then registers \<^verbatim>\<open>new FragmentBFF(fragment)\<close>
  under the fragment's name.
\<close>

fun createFragments ::
  "(string \<Rightarrow> string \<Rightarrow> 'd IFragmentHandler option) \<Rightarrow> 'd IFragmentBFF list \<Rightarrow>
   (string \<rightharpoonup> 'd FragmentBFF) \<Rightarrow> error + (string \<rightharpoonup> 'd FragmentBFF)" where
  "createFragments require [] fs = Inr fs"
| "createFragments require (fragment # rest) fs =
     (if is_undefined (js_get (map_of (bff_versions fragment)) (bff_version fragment))
      then Inl (TypeError ''Cannot read property assets of undefined'')
      else (case new_FragmentBFF require fragment of
              Inl e \<Rightarrow> Inl e
            | Inr fb \<Rightarrow> createFragments require rest (fs(bff_name fragment \<mapsto> fb))))"

definition new_GatewayBFF ::
  "(string \<Rightarrow> string \<Rightarrow> 'd IFragmentHandler option) \<Rightarrow> 'd IGatewayBFFConfiguration \<Rightarrow>
   error + 'd GatewayBFF" where
  "new_GatewayBFF require cfg =
     (case createFragments require (gwc_fragments cfg) Map.empty of
        Inl e \<Rightarrow> Inl e
      | Inr fs \<Rightarrow> Inr \<lparr>gateway_config = cfg, gateway_fragments = fs\<rparr>)"

text \<open>\<^verbatim>\<open>wrapFragmentContent(htmlContent, fragmentName)\<close>, lines 157-159.\<close>

definition wrapFragmentContent :: "'d GatewayBFF \<Rightarrow> string \<Rightarrow> string \<Rightarrow> string" where
  "wrapFragmentContent gw htmlContent fragmentName =
     ''<html><head><title>'' @ gwc_name (gateway_config gw) @ '' - '' @ fragmentName @ ''</title>'' @
     (if isMobile (gateway_config gw) = Some True
      then ''<meta name='' @ [CHR 0x22] @ ''viewport'' @ [CHR 0x22] @ '' content='' @ [CHR 0x22] @
           ''width=device-width, initial-scale=1.0, maximum-scale=1.0, user-scalable=no'' @
           [CHR 0x22] @ '' />''
      else []) @
     ''</head><body>'' @ htmlContent @ ''</body></html>''"

text \<open>A template literal prints an absent value as \<^verbatim>\<open>undefined\<close>.\<close>

definition template_string :: "string option \<Rightarrow> string" where
  "template_string v = (case v of None \<Rightarrow> ''undefined'' | Some s \<Rightarrow> s)"

text \<open>
  \<^verbatim>\<open>async renderFragment(fragmentName, renderMode, partial, cookieValue?)\<close>, lines
  135-149. \<open>JSON_stringify\<close> is \<^verbatim>\<open>JSON.stringify\<close> on a content object. An
  absent \<^verbatim>\<open>renderMode\<close> takes the parameter's default, \<^verbatim>\<open>PREVIEW\<close>. The
  \<^verbatim>\<open>default\<close> branch of the \<^verbatim>\<open>switch\<close> is the same as the \<^verbatim>\<open>STREAM\<close> one.
  A name that is not registered and names an inherited member passes the test of line
  136; the member has no \<^verbatim>\<open>render\<close> to call. The content object is a plain object
  with the properties the handler returned.
\<close>

definition renderFragment ::
  "(partials \<Rightarrow> string) \<Rightarrow> 'd GatewayBFF \<Rightarrow> string \<Rightarrow> FRAGMENT_RENDER_MODES option \<Rightarrow>
   string \<Rightarrow> string option \<Rightarrow> error + string" where
  "renderFragment JSON_stringify gw fragmentName renderMode partial cookieValue =
     (case js_get (gateway_fragments gw) fragmentName of
        Own f \<Rightarrow>
          (case FragmentBFF_render f [] cookieValue of
             Inl e \<Rightarrow> Inl e
           | Inr fragmentContent \<Rightarrow>
               (case (case renderMode of None \<Rightarrow> PREVIEW | Some m \<Rightarrow> m) of
                  STREAM \<Rightarrow> Inr (JSON_stringify fragmentContent)
                | PREVIEW \<Rightarrow>
                    Inr (wrapFragmentContent gw
                           (property_text (map_of fragmentContent) partial) fragmentName)))
      | Inherited \<Rightarrow>
          Inl (TypeError ''this.fragments[fragmentName].render is not a function'')
      | Undefined \<Rightarrow> Inl (Error (''Failed to find fragment: '' @ fragmentName)))"

text \<open>
  A value of a parsed query string: a string, or the list of the values of a repeated
  parameter. \<open>truthy\<close> is JavaScript's test of such a value (only the empty string
  is falsy) and \<open>property_key\<close> its conversion to a property name.
\<close>

datatype qval = QStr string | QArr "string list"

fun truthy :: "qval \<Rightarrow> bool" where
  "truthy (QStr s) = (s \<noteq> [])"
| "truthy (QArr xs) = True"

fun join_with :: "string \<Rightarrow> string list \<Rightarrow> string" where
  "join_with sep [] = []"
| "join_with sep [x] = x"
| "join_with sep (x # y # ys) = x @ sep @ join_with sep (y # ys)"

fun property_key :: "qval \<Rightarrow> string" where
  "property_key (QStr s) = s"
| "property_key (QArr xs) = join_with '','' xs"

text \<open>What a route handler reads of the incoming request (\<open>req_query k\<close> is what
  \<^verbatim>\<open>req.query[k]\<close> gives, \<open>req_cookies k\<close> what \<^verbatim>\<open>req.cookies[k]\<close> gives; both
  objects are built by the server), and what it calls on the response.\<close>

record express_request =
  req_query :: "string \<rightharpoonup> qval"
  req_cookies :: "string \<rightharpoonup> string"

datatype response_call = ResSet string string | ResStatus nat | ResEnd string

text \<open>
  The handler \<^verbatim>\<open>addFragmentRoutes\<close> registers for one configured fragment, lines
  163-173. The result is the calls made on \<^verbatim>\<open>res\<close>, in order, and the error the
  handler's promise is rejected with, if any. When \<^verbatim>\<open>renderFragment\<close> rejects, the
  \<^verbatim>\<open>await\<close> throws before any call on \<^verbatim>\<open>res\<close>; what the server does with the
  rejected promise is code of \<^verbatim>\<open>./server\<close>, which is not among the sources.
\<close>

definition fragment_route_handler ::
  "constants \<Rightarrow> (partials \<Rightarrow> string) \<Rightarrow> 'd GatewayBFF \<Rightarrow> 'd IFragmentBFF \<Rightarrow> express_request \<Rightarrow>
   response_call list \<times> error option" where
  "fragment_route_handler K JSON_stringify gw fragmentConfig req =
     (let renderMode =
            (if req_query req (RENDER_MODE_QUERY_NAME K) = Some (QStr (STREAM_value K))
             then STREAM else PREVIEW);
          partial =
            (case req_query req (PREVIEW_PARTIAL_QUERY_NAME K) of
               None \<Rightarrow> DEFAULT_MAIN_PARTIAL K
             | Some q \<Rightarrow> if truthy q then property_key q else DEFAULT_MAIN_PARTIAL K)
      in case renderFragment JSON_stringify gw (bff_name fragmentConfig) (Some renderMode) partial
                (req_cookies req (bff_testCookie fragmentConfig)) of
           Inl e \<Rightarrow> ([], Some e)
         | Inr gatewayContent \<Rightarrow>
             if renderMode = STREAM
             then ([ResSet ''content-type'' ''application/json'', ResStatus 200,
                    ResEnd gatewayContent], None)
             else ([ResStatus 200, ResEnd gatewayContent], None))"

text \<open>\<^verbatim>\<open>addFragmentRoutes\<close>, lines 161-177: the path and the handler of every
  \<^verbatim>\<open>GET\<close> route it adds.\<close>

definition addFragmentRoutes ::
  "constants \<Rightarrow> (partials \<Rightarrow> string) \<Rightarrow> 'd GatewayBFF \<Rightarrow>
   (string \<times> (express_request \<Rightarrow> response_call list \<times> error option)) list" where
  "addFragmentRoutes K JSON_stringify gw =
     map (\<lambda>fragmentConfig.
            (''/'' @ bff_name fragmentConfig @ url (bff_render fragmentConfig),
             fragment_route_handler K JSON_stringify gw fragmentConfig))
         (gwc_fragments (gateway_config gw))"

text \<open>The status codes a handler has set, and the 2xx range.\<close>

fun statuses :: "response_call list \<Rightarrow> nat list" where
  "statuses [] = []"
| "statuses (ResStatus n # cs) = n # statuses cs"
| "statuses (c # cs) = statuses cs"

definition is_2xx :: "nat \<Rightarrow> bool" where
  "is_2xx n = (200 \<le> n \<and> n < 300)"

section \<open>\<^verbatim>\<open>Api\<close>: version selection of the API routes\<close>

text \<open>\<^verbatim>\<open>IApiConfig\<close>; of a version only the paths of its endpoints are kept.\<close>

record IApiConfig =
  api_name :: string
  api_testCookie :: string
  liveVersion :: string
  api_versions :: "(string \<times> string list) list"

text \<open>
  The middleware of \<^verbatim>\<open>registerEndpoints\<close>, lines 326-330. The outer test is on an
  array literal, which is always truthy, so the version is the cookie's value when
  \<^verbatim>\<open>versions\<close> has a property of that name, stored or inherited, and the live
  version otherwise; an absent
  cookie is the property name \<^verbatim>\<open>undefined\<close>. The result is the rewritten
  \<^verbatim>\<open>req.url\<close>.
\<close>

definition requestVersion :: "IApiConfig \<Rightarrow> (string \<rightharpoonup> string) \<Rightarrow> string" where
  "requestVersion cfg cookies =
     (if \<not> is_undefined
               (js_get (map_of (api_versions cfg)) (template_string (cookies (api_testCookie cfg))))
      then template_string (cookies (api_testCookie cfg))
      else liveVersion cfg)"

definition api_middleware :: "IApiConfig \<Rightarrow> (string \<rightharpoonup> string) \<Rightarrow> string \<Rightarrow> string" where
  "api_middleware cfg cookies req_url = ''/'' @ requestVersion cfg cookies @ req_url"

section \<open>\<^verbatim>\<open>FragmentStorefront\<close>: the fragment content client (fragment.ts)\<close>

record FragmentStorefront =
  fs_name :: string
  fs_config :: "IExposeFragment option"
  primary :: bool
  shouldWait :: bool
  from_gateway :: string
  fragmentUrl :: "string option"

text \<open>\<^verbatim>\<open>IFragmentContentResponse\<close>, and the result every failure is reported as.\<close>

record IFragmentContentResponse =
  status :: nat
  html :: partials

definition failed_content :: IFragmentContentResponse where
  "failed_content = \<lparr>status = 500, html = []\<rparr>"

text \<open>
  \<^verbatim>\<open>async getPlaceholder()\<close>, lines 155-175. \<open>net\<close> answers a \<^verbatim>\<open>fetch\<close> of a URL
  followed by \<^verbatim>\<open>res.text()\<close>: the text, or \<open>None\<close> when either rejects. The result
  is the string the promise resolves to and the URLs that were requested.
\<close>

definition getPlaceholder ::
  "(string \<Rightarrow> string option) \<Rightarrow> FragmentStorefront \<Rightarrow> string \<times> string list" where
  "getPlaceholder net f =
     (case fs_config f of
        None \<Rightarrow> ([], [])
      | Some c \<Rightarrow>
          if placeholder (render c) \<noteq> Some True then ([], [])
          else (let u = template_string (fragmentUrl f) @ ''/placeholder'' in
                case net u of
                  Some text_html \<Rightarrow> (text_html, [u])
                | None \<Rightarrow> ([], [u])))"

text \<open>
  The caller's request handed to \<^verbatim>\<open>getContent\<close>, the result of
  \<^verbatim>\<open>url.parse(req.url, true)\<close> (its \<^verbatim>\<open>pathname\<close> is \<^verbatim>\<open>null\<close> for a URL without
  a path), and the second argument of \<^verbatim>\<open>fetch\<close>.
\<close>

record caller_request =
  caller_url :: string
  caller_headers :: "(string \<rightharpoonup> string) option"

record parsed_url =
  pathname :: "string option"
  parsed_query :: "string \<rightharpoonup> qval"

record request_configuration =
  rc_timeout :: nat
  rc_headers :: "(string \<rightharpoonup> string) option"

text \<open>\<^verbatim>\<open>String.prototype.replace\<close> with a string pattern: the first occurrence is
  replaced.\<close>

fun js_replace :: "string \<Rightarrow> string \<Rightarrow> string \<Rightarrow> string" where
  "js_replace pat rep [] = (if pat = [] then rep else [])"
| "js_replace pat rep (c # cs) =
     (if take (length pat) (c # cs) = pat then rep @ drop (length pat) (c # cs)
      else c # js_replace pat rep cs)"


text \<open>
  The query object of \<^verbatim>\<open>getContent\<close>, lines 197-200 and 208-225: the attributes,
  then \<^verbatim>\<open>__renderMode\<close>, then (when the request has a URL) the caller's parsed query,
  a later property replacing an earlier one of the same name; then the five
  \<^verbatim>\<open>delete\<close>s. The order of the properties is not modelled.
\<close>

definition content_query ::
  "constants \<Rightarrow> (string \<Rightarrow> parsed_url) \<Rightarrow> (string \<rightharpoonup> qval) \<Rightarrow> caller_request option \<Rightarrow>
   (string \<rightharpoonup> qval)" where
  "content_query K url_parse attribs req =
     (let query = attribs(''__renderMode'' \<mapsto> QStr (STREAM_value K));
          query' = (case req of
                      None \<Rightarrow> query
                    | Some r \<Rightarrow>
                        if caller_url r \<noteq> [] then query ++ parsed_query (url_parse (caller_url r))
                        else query)
      in query'(''from'' := None, ''name'' := None, ''partial'' := None, ''primary'' := None,
                ''shouldwait'' := None))"

text \<open>\<^verbatim>\<open>requestConfiguration\<close>, lines 203-206 and 216-218.\<close>

definition requestConfiguration ::
  "constants \<Rightarrow> IExposeFragment \<Rightarrow> caller_request option \<Rightarrow> request_configuration" where
  "requestConfiguration K c req =
     \<lparr>rc_timeout = (case timeout (render c) of
                      None \<Rightarrow> DEFAULT_CONTENT_TIMEOUT K
                    | Some t \<Rightarrow> if t = 0 then DEFAULT_CONTENT_TIMEOUT K else t),
      rc_headers = (case req of None \<Rightarrow> None | Some r \<Rightarrow> caller_headers r)\<rparr>"

text \<open>
  \<^verbatim>\<open>routeRequest\<close>, line 227. \<open>qs_stringify\<close> is \<^verbatim>\<open>querystring.stringify\<close>. Reading
  \<^verbatim>\<open>replace\<close> of a \<^verbatim>\<open>null\<close> pathname throws a \<^verbatim>\<open>TypeError\<close>.
\<close>

definition routeRequest ::
  "constants \<Rightarrow> (string \<Rightarrow> parsed_url) \<Rightarrow> ((string \<rightharpoonup> qval) \<Rightarrow> string) \<Rightarrow> FragmentStorefront \<Rightarrow>
   (string \<rightharpoonup> qval) \<Rightarrow> caller_request option \<Rightarrow> error + string" where
  "routeRequest K url_parse qs_stringify f attribs req =
     (let query = content_query K url_parse attribs req in
      case req of
        None \<Rightarrow> Inr (''/?'' @ qs_stringify query)
      | Some r \<Rightarrow>
          if caller_url r = [] then Inr (''/?'' @ qs_stringify query)
          else (case pathname (url_parse (caller_url r)) of
                  None \<Rightarrow> Inl (TypeError ''Cannot read property replace of null'')
                | Some p \<Rightarrow>
                    Inr (js_replace (''/'' @ fs_name f) [] p @ ''?'' @ qs_stringify query)))"

text \<open>What the \<^verbatim>\<open>fetch\<close> of the content comes back with: the request timed out, the
  transport failed, or a response arrived with its status and its body decoded by
  \<^verbatim>\<open>res.json()\<close> (\<open>None\<close> when the decoding rejects).\<close>

datatype content_outcome = Timeout | TransportError | Response nat "partials option"

text \<open>
  \<^verbatim>\<open>async getContent(attribs = {}, req?)\<close>, lines 188-244. \<open>net\<close> answers the
  \<^verbatim>\<open>fetch\<close> of a URL with a request configuration. \<open>Inl\<close> is a rejected promise;
  every rejection of the \<^verbatim>\<open>fetch\<close> chain is caught and becomes
  \<open>failed_content\<close>.
\<close>

definition getContent ::
  "constants \<Rightarrow> (string \<Rightarrow> parsed_url) \<Rightarrow> ((string \<rightharpoonup> qval) \<Rightarrow> string) \<Rightarrow>
   (string \<Rightarrow> request_configuration \<Rightarrow> content_outcome) \<Rightarrow> FragmentStorefront \<Rightarrow>
   (string \<rightharpoonup> qval) \<Rightarrow> caller_request option \<Rightarrow> error + IFragmentContentResponse" where
  "getContent K url_parse qs_stringify net f attribs req =
     (case fs_config f of
        None \<Rightarrow> Inr failed_content
      | Some c \<Rightarrow>
          (case routeRequest K url_parse qs_stringify f attribs req of
             Inl e \<Rightarrow> Inl e
           | Inr route \<Rightarrow>
               (case net (template_string (fragmentUrl f) @ route) (requestConfiguration K c req) of
                  Response st (Some body) \<Rightarrow> Inr \<lparr>status = st, html = body\<rparr>
                | Response st None \<Rightarrow> Inr failed_content
                | Timeout \<Rightarrow> Inr failed_content
                | TransportError \<Rightarrow> Inr failed_content)))"


section \<open>Example values\<close>

text \<open>Concrete inputs at which the theorems below are evaluated. The catalog and the
  gateway are those of the repository's storefront tests.\<close>

definition ex_constants :: constants where
  "ex_constants = \<lparr>DEFAULT_POLLING_INTERVAL = 1250, DEFAULT_CONTENT_TIMEOUT = 15000,
     RENDER_MODE_QUERY_NAME = ''__renderMode'', PREVIEW_PARTIAL_QUERY_NAME = ''__partial'',
     DEFAULT_MAIN_PARTIAL = ''main'', API_ROUTE_PREFIX = ''api'', STREAM_value = ''stream''\<rparr>"

definition ex_render :: IFragmentBFFRender where
  "ex_render = \<lparr>static = None, url = ''/'', routeCache = None, selfReplace = None,
     cacheControl = None, placeholder = None, timeout = None\<rparr>"

definition ex_fragment :: IExposeFragment where
  "ex_fragment = \<lparr>version = ''1.0.0'', render = ex_render, assets = [], dependencies = [],
     testCookie = ''sdasd''\<rparr>"

definition ex_catalog1 :: IExposeConfig where
  "ex_catalog1 = \<lparr>oid = 1, fragments = [(''product'', ex_fragment)], hash = ''12345''\<rparr>"

definition ex_catalog2 :: IExposeConfig where
  "ex_catalog2 = \<lparr>oid = 2, fragments = [], hash = ''12345''\<rparr>"

definition ex_catalog3 :: IExposeConfig where
  "ex_catalog3 = \<lparr>oid = 3, fragments = [], hash = ''67890''\<rparr>"

definition ex_idle :: GatewayStorefrontInstance where
  "ex_idle = \<lparr>gw_name = ''Browsing'', gw_url = ''http://localhost:4446'', config = None,
     intervalId = None, emitted = [], timers = Map.empty, nextTimer = 0\<rparr>"

definition ex_ready :: GatewayStorefrontInstance where
  "ex_ready = ex_idle\<lparr>config := Some ex_catalog1, emitted := [(GATEWAY_READY, ''Browsing'')]\<rparr>"

text \<open>A handler with no \<^verbatim>\<open>data\<close> function, a static fragment and a non-static
  fragment that use it, and the gateway that serves both.\<close>

definition ex_handler :: "unit IFragmentHandler" where
  "ex_handler = \<lparr>content = (\<lambda>req d. Inr [(''main'', ''Product Content'')]),
     handler_placeholder = Inr ''Product Placeholder'', data = None\<rparr>"

definition ex_product :: "unit IFragmentBFF" where
  "ex_product = \<lparr>bff_name = ''product'',
     bff_versions = [(''1.0.0'', \<lparr>version_assets = [], version_dependencies = [],
                                  handler = Some ex_handler\<rparr>)],
     bff_version = ''1.0.0'', bff_testCookie = ''sdasd'',
     bff_render = ex_render\<lparr>static := Some True\<rparr>\<rparr>"

definition ex_basket :: "unit IFragmentBFF" where
  "ex_basket = ex_product\<lparr>bff_name := ''basket'', bff_render := ex_render\<rparr>"

definition ex_product_bff :: "unit FragmentBFF" where
  "ex_product_bff = \<lparr>bff_config = ex_product, bff_handler = [''1.0.0'' \<mapsto> ex_handler]\<rparr>"

definition ex_basket_bff :: "unit FragmentBFF" where
  "ex_basket_bff = \<lparr>bff_config = ex_basket, bff_handler = [''1.0.0'' \<mapsto> ex_handler]\<rparr>"

definition ex_gateway_config :: "unit IGatewayBFFConfiguration" where
  "ex_gateway_config = \<lparr>gwc_name = ''Browsing'', gwc_url = ''http://localhost:4446'',
     port = 4446, gwc_fragments = [ex_product, ex_basket], isMobile = None\<rparr>"

definition ex_gateway :: "unit GatewayBFF" where
  "ex_gateway = \<lparr>gateway_config = ex_gateway_config,
     gateway_fragments = [''product'' \<mapsto> ex_product_bff, ''basket'' \<mapsto> ex_basket_bff]\<rparr>"

definition ex_require :: "string \<Rightarrow> string \<Rightarrow> unit IFragmentHandler option" where
  "ex_require n v = None"

definition ex_stringify :: "partials \<Rightarrow> string" where
  "ex_stringify ps = concat (map (\<lambda>(k, v). k @ '':'' @ v @ '';'') ps)"

definition ex_plain_request :: express_request where
  "ex_plain_request = \<lparr>req_query = Map.empty, req_cookies = Map.empty\<rparr>"

definition ex_pinned_request :: express_request where
  "ex_pinned_request = \<lparr>req_query = Map.empty, req_cookies = [''sdasd'' \<mapsto> ''9.9.9'']\<rparr>"

definition ex_api :: IApiConfig where
  "ex_api = \<lparr>api_name = ''browsing'', api_testCookie = ''sdasd'', liveVersion = ''1.0.0'',
     api_versions = [(''1.0.0'', [''/history''])]\<rparr>"

text \<open>A storefront fragment with its descriptor, one without, a caller's request, and
  stand-ins for \<^verbatim>\<open>url.parse\<close>, \<^verbatim>\<open>querystring.stringify\<close> and the network.\<close>

definition ex_storefront_fragment :: FragmentStorefront where
  "ex_storefront_fragment = \<lparr>fs_name = ''product'', fs_config = Some ex_fragment,
     primary = False, shouldWait = False, from_gateway = ''Browsing'',
     fragmentUrl = Some ''http://localhost:4446/product''\<rparr>"

definition ex_unconfigured_fragment :: FragmentStorefront where
  "ex_unconfigured_fragment = \<lparr>fs_name = ''product'', fs_config = None,
     primary = False, shouldWait = False, from_gateway = ''Browsing'', fragmentUrl = None\<rparr>"

definition ex_placeholder_fragment :: FragmentStorefront where
  "ex_placeholder_fragment =
     ex_storefront_fragment\<lparr>fs_config :=
       Some (ex_fragment\<lparr>render := ex_render\<lparr>placeholder := Some True\<rparr>\<rparr>)\<rparr>"

definition ex_caller_request :: caller_request where
  "ex_caller_request = \<lparr>caller_url = ''/product/detail?id=7&from=Browsing'',
     caller_headers = None\<rparr>"


text \<open>\<^verbatim>\<open>url.parse(u, true)\<close> on the two example URLs.\<close>

definition ex_url_parse :: "string \<Rightarrow> parsed_url" where
  "ex_url_parse u =
     (if u = ''/product/detail?id=7&from=Browsing''
      then \<lparr>pathname = Some ''/product/detail'',
            parsed_query = [''id'' \<mapsto> QStr ''7'', ''from'' \<mapsto> QStr ''Browsing'']\<rparr>
      else if u = ''/product/detail?id=7&__renderMode=preview''
      then \<lparr>pathname = Some ''/product/detail'',
            parsed_query = [''id'' \<mapsto> QStr ''7'', ''__renderMode'' \<mapsto> QStr ''preview'']\<rparr>
      else \<lparr>pathname = None, parsed_query = Map.empty\<rparr>)"

text \<open>\<^verbatim>\<open>querystring.stringify\<close> on the example queries: the pairs
  \<^verbatim>\<open>name=value\<close> of the properties, \<^verbatim>\<open>__renderMode\<close> first as it is stored
  first, joined by \<^verbatim>\<open>&\<close>.\<close>

definition ex_qs_stringify :: "(string \<rightharpoonup> qval) \<Rightarrow> string" where
  "ex_qs_stringify q =
     join_with ''&''
       (concat (map (\<lambda>k. case q k of None \<Rightarrow> [] | Some v \<Rightarrow> [k @ ''='' @ property_key v])
                  [''__renderMode'', ''id'', ''from'']))"

definition ex_net_timeout :: "string \<Rightarrow> request_configuration \<Rightarrow> content_outcome" where
  "ex_net_timeout u rc = Timeout"

definition ex_net_placeholder :: "string \<Rightarrow> string option" where
  "ex_net_placeholder u =
     (if u = ''http://localhost:4446/product/placeholder'' then Some ''Product Placeholder''
      else None)"

section \<open>The discovery client: polling, notifications, timers\<close>

text \<open>
  C1. For every successful catalog poll: when no snapshot is stored, the fetched catalog
  is stored and exactly one ready notification is emitted; when a snapshot is stored and
  the fetched catalog's hash differs from the stored one, the snapshot is replaced and
  exactly one updated notification is emitted; when the hash is the same, the instance
  is unchanged: the stored snapshot is the same object and nothing is emitted.
\<close>

theorem poll_notifies:
  "(config g = None \<longrightarrow>
      config (fetch (Catalog d) g) = Some d \<and>
      emitted (fetch (Catalog d) g) = emitted g @ [(GATEWAY_READY, gw_name g)]) \<and>
   (\<forall>c. config g = Some c \<and> hash d \<noteq> hash c \<longrightarrow>
      config (fetch (Catalog d) g) = Some d \<and>
      emitted (fetch (Catalog d) g) = emitted g @ [(GATEWAY_UPDATED, gw_name g)]) \<and>
   (\<forall>c. config g = Some c \<and> hash d = hash c \<longrightarrow>
      fetch (Catalog d) g = g \<and>
      config (fetch (Catalog d) g) = Some c \<and>
      emitted (fetch (Catalog d) g) = emitted g)"
  by (simp add: fetch_def update_def emit_def)

theorem poll_notifies_witness:
  "config ex_idle = None \<and>
   config (fetch (Catalog ex_catalog1) ex_idle) = Some ex_catalog1 \<and>
   emitted (fetch (Catalog ex_catalog1) ex_idle) = [(GATEWAY_READY, ''Browsing'')] \<and>
   config ex_ready = Some ex_catalog1 \<and> hash ex_catalog3 \<noteq> hash ex_catalog1 \<and>
   config (fetch (Catalog ex_catalog3) ex_ready) = Some ex_catalog3 \<and>
   emitted (fetch (Catalog ex_catalog3) ex_ready) =
     [(GATEWAY_READY, ''Browsing''), (GATEWAY_UPDATED, ''Browsing'')] \<and>
   hash ex_catalog2 = hash ex_catalog1 \<and>
   fetch (Catalog ex_catalog2) ex_ready = ex_ready \<and>
   oid (the (config (fetch (Catalog ex_catalog2) ex_ready))) = 1"
  using poll_notifies [of ex_idle ex_catalog1] poll_notifies [of ex_ready ex_catalog3]
    poll_notifies [of ex_ready ex_catalog2]
  by (simp add: ex_idle_def ex_ready_def ex_catalog1_def ex_catalog2_def ex_catalog3_def)

text \<open>
  C6, as the code has it. The discovery client computes no hash: it compares the
  \<^verbatim>\<open>hash\<close> property the fetched payload carries with the one of the stored snapshot.
  With a snapshot stored, a poll emits a notification exactly when the two
  \<^verbatim>\<open>hash\<close> properties differ, whatever the fragment descriptors are; when they are
  equal the stored snapshot stays, and when they differ the fetched catalog replaces it
  and one updated notification is emitted.
\<close>

theorem hash_property_decides:
  "config g = Some c \<Longrightarrow>
     (emitted (fetch (Catalog d) g) \<noteq> emitted g) = (hash d \<noteq> hash c) \<and>
     (if hash d = hash c then config (fetch (Catalog d) g) = Some c
      else config (fetch (Catalog d) g) = Some d \<and>
           emitted (fetch (Catalog d) g) = emitted g @ [(GATEWAY_UPDATED, gw_name g)])"
  by (simp add: fetch_def update_def emit_def)

theorem hash_property_decides_witness:
  "config ex_ready = Some ex_catalog1 \<and>
   (emitted (fetch (Catalog ex_catalog3) ex_ready) \<noteq> emitted ex_ready) \<and>
   hash ex_catalog3 \<noteq> hash ex_catalog1 \<and>
   config (fetch (Catalog ex_catalog3) ex_ready) = Some ex_catalog3"
proof -
  have c: "config ex_ready = Some ex_catalog1"
    by (simp add: ex_ready_def)
  have h: "hash ex_catalog3 \<noteq> hash ex_catalog1"
    by (simp add: ex_catalog1_def ex_catalog3_def)
  show ?thesis
    using hash_property_decides [OF c, of ex_catalog3] c h by simp
qed

text \<open>The claim as stated fails: a catalog whose fragment descriptors changed and
  whose \<^verbatim>\<open>hash\<close> property did not is not detected.\<close>

theorem content_change_undetected:
  "config ex_ready = Some ex_catalog1 \<and>
   fragments ex_catalog2 \<noteq> fragments ex_catalog1 \<and>
   hash ex_catalog2 = hash ex_catalog1 \<and>
   fetch (Catalog ex_catalog2) ex_ready = ex_ready \<and>
   config (fetch (Catalog ex_catalog2) ex_ready) = Some ex_catalog1 \<and>
   emitted (fetch (Catalog ex_catalog2) ex_ready) = emitted ex_ready"
  by (simp add: fetch_def update_def emit_def ex_idle_def ex_ready_def ex_catalog1_def
      ex_catalog2_def)

text \<open>
  C8. \<^verbatim>\<open>stopUpdating\<close> cancels the timer recorded in \<^verbatim>\<open>intervalId\<close>, which is
  the one \<^verbatim>\<open>startUpdating\<close> scheduled; on an instance that was never started it
  changes nothing; and a second call leaves the state of the first.
\<close>

theorem stopUpdating_idempotent:
  "(\<forall>t. intervalId g = Some t \<longrightarrow> t \<notin> dom (timers (stopUpdating g))) \<and>
   (intervalId g = None \<longrightarrow> stopUpdating g = g) \<and>
   stopUpdating (stopUpdating g) = stopUpdating g \<and>
   intervalId (startUpdating K p g) = Some (nextTimer g) \<and>
   nextTimer g \<in> dom (timers (startUpdating K p g)) \<and>
   nextTimer g \<notin> dom (timers (stopUpdating (startUpdating K p g)))"
  by (auto simp add: stopUpdating_def clearInterval_def startUpdating_def setInterval_def Let_def
      split: option.splits)

theorem stopUpdating_idempotent_witness:
  "intervalId ex_idle = None \<and> stopUpdating ex_idle = ex_idle \<and>
   intervalId (startUpdating ex_constants None ex_ready) = Some 0 \<and>
   timers (startUpdating ex_constants None ex_ready) 0 = Some 1250 \<and>
   0 \<notin> dom (timers (stopUpdating (startUpdating ex_constants None ex_ready))) \<and>
   stopUpdating (stopUpdating (startUpdating ex_constants None ex_ready)) =
     stopUpdating (startUpdating ex_constants None ex_ready)"
proof -
  have n: "intervalId ex_idle = None" "nextTimer ex_ready = 0"
    by (simp_all add: ex_idle_def ex_ready_def)
  have t: "timers (startUpdating ex_constants None ex_ready) 0 = Some 1250"
    by (simp add: startUpdating_def setInterval_def Let_def ex_idle_def ex_ready_def ex_constants_def)
  show ?thesis
    using stopUpdating_idempotent [of ex_idle ex_constants None]
      stopUpdating_idempotent [of "startUpdating ex_constants None ex_ready" ex_constants None]
      stopUpdating_idempotent [of ex_ready ex_constants None] n t
    by simp
qed

text \<open>A timer that is scheduled, is not the one recorded in \<^verbatim>\<open>intervalId\<close> and
  was created before the next one stays so through every step of the instance.\<close>

lemma run_keeps_timer:
  "t \<in> dom (timers g) \<Longrightarrow> intervalId g \<noteq> Some t \<Longrightarrow> t < nextTimer g \<Longrightarrow>
   t \<in> dom (timers (run K ss g)) \<and> intervalId (run K ss g) \<noteq> Some t \<and> t < nextTimer (run K ss g)"
proof (induction ss arbitrary: g)
  case Nil
  then show ?case by simp
next
  case (Cons s ss)
  have "t \<in> dom (timers (do_step K s g)) \<and> intervalId (do_step K s g) \<noteq> Some t \<and>
        t < nextTimer (do_step K s g)"
    using Cons.prems
    by (cases s)
       (auto simp add: startUpdating_def setInterval_def Let_def stopUpdating_def clearInterval_def
          fire_def fetch_def update_def emit_def split: option.splits catalog_response.splits)
  then show ?case using Cons.IH by simp
qed

text \<open>
  C10. A second \<^verbatim>\<open>startUpdating\<close> without a \<^verbatim>\<open>stopUpdating\<close> in between
  overwrites \<^verbatim>\<open>intervalId\<close>. The following \<^verbatim>\<open>stopUpdating\<close> cancels the second
  timer only: the first one stays scheduled after every further sequence of starts,
  stops and timer firings, and each time it fires it polls the catalog.
\<close>

theorem second_start_leaks_first_timer:
  "intervalId (startUpdating K p1 g) = Some (nextTimer g) \<and>
   intervalId (startUpdating K p2 (startUpdating K p1 g)) = Some (Suc (nextTimer g)) \<and>
   Suc (nextTimer g) \<notin> dom (timers (stopUpdating (startUpdating K p2 (startUpdating K p1 g)))) \<and>
   (\<forall>ss. nextTimer g \<in>
      dom (timers (run K ss (stopUpdating (startUpdating K p2 (startUpdating K p1 g)))))) \<and>
   (\<forall>ss r. fire (nextTimer g) r
        (run K ss (stopUpdating (startUpdating K p2 (startUpdating K p1 g)))) =
      fetch r (run K ss (stopUpdating (startUpdating K p2 (startUpdating K p1 g)))))"
proof -
  let ?g = "stopUpdating (startUpdating K p2 (startUpdating K p1 g))"
  have inv: "nextTimer g \<in> dom (timers ?g)" "intervalId ?g \<noteq> Some (nextTimer g)"
    "nextTimer g < nextTimer ?g"
    by (simp_all add: startUpdating_def setInterval_def Let_def stopUpdating_def clearInterval_def)
  have kept: "nextTimer g \<in> dom (timers (run K ss ?g))" for ss
    using run_keeps_timer [OF inv] by simp
  have "fire (nextTimer g) r (run K ss ?g) = fetch r (run K ss ?g)" for ss r
    using kept [of ss] by (simp add: fire_def)
  moreover have "intervalId (startUpdating K p1 g) = Some (nextTimer g)"
    "intervalId (startUpdating K p2 (startUpdating K p1 g)) = Some (Suc (nextTimer g))"
    "Suc (nextTimer g) \<notin> dom (timers ?g)"
    by (simp_all add: startUpdating_def setInterval_def Let_def stopUpdating_def clearInterval_def)
  ultimately show ?thesis using kept by simp
qed

theorem second_start_leaks_first_timer_witness:
  "intervalId (startUpdating ex_constants None ex_ready) = Some 0 \<and>
   intervalId (startUpdating ex_constants None (startUpdating ex_constants None ex_ready)) = Some 1 \<and>
   0 \<in> dom (timers (run ex_constants [StopUpdating, Fire 1 (Catalog ex_catalog3)]
     (stopUpdating (startUpdating ex_constants None (startUpdating ex_constants None ex_ready))))) \<and>
   emitted (fire 0 (Catalog ex_catalog3)
     (stopUpdating (startUpdating ex_constants None (startUpdating ex_constants None ex_ready)))) =
     [(GATEWAY_READY, ''Browsing''), (GATEWAY_UPDATED, ''Browsing'')] \<and>
   emitted (fire 1 (Catalog ex_catalog3)
     (stopUpdating (startUpdating ex_constants None (startUpdating ex_constants None ex_ready)))) =
     [(GATEWAY_READY, ''Browsing'')]"
proof -
  let ?g = "stopUpdating (startUpdating ex_constants None (startUpdating ex_constants None ex_ready))"
  note T = second_start_leaks_first_timer [of ex_constants None ex_ready None]
  have n: "nextTimer ex_ready = 0" by (simp add: ex_ready_def ex_idle_def)
  from T have i: "intervalId (startUpdating ex_constants None ex_ready) = Some (nextTimer ex_ready)"
    "intervalId (startUpdating ex_constants None (startUpdating ex_constants None ex_ready)) =
       Some (Suc (nextTimer ex_ready))"
    by blast+
  from T have "\<forall>ss. nextTimer ex_ready \<in> dom (timers (run ex_constants ss ?g))" by blast
  then have "nextTimer ex_ready \<in>
      dom (timers (run ex_constants [StopUpdating, Fire 1 (Catalog ex_catalog3)] ?g))"
    by blast
  then have k: "0 \<in> dom (timers (run ex_constants [StopUpdating, Fire 1 (Catalog ex_catalog3)] ?g))"
    by (simp only: n)
  from T have "\<forall>ss r. fire (nextTimer ex_ready) r (run ex_constants ss ?g) =
      fetch r (run ex_constants ss ?g)"
    by blast
  then have "fire (nextTimer ex_ready) (Catalog ex_catalog3) (run ex_constants [] ?g) =
      fetch (Catalog ex_catalog3) (run ex_constants [] ?g)"
    by blast
  then have c: "fire 0 (Catalog ex_catalog3) ?g = fetch (Catalog ex_catalog3) ?g"
    using n by simp
  have a: "emitted (fetch (Catalog ex_catalog3) ?g) =
     [(GATEWAY_READY, ''Browsing''), (GATEWAY_UPDATED, ''Browsing'')]"
    by (simp add: fetch_def update_def emit_def startUpdating_def setInterval_def Let_def
        stopUpdating_def clearInterval_def ex_ready_def ex_idle_def ex_catalog1_def
        ex_catalog3_def)
  have b: "emitted (fire 1 (Catalog ex_catalog3) ?g) = [(GATEWAY_READY, ''Browsing'')]"
    by (simp add: fire_def startUpdating_def setInterval_def Let_def
        stopUpdating_def clearInterval_def ex_ready_def ex_idle_def)
  show ?thesis
    using i k a b c n by (simp only: One_nat_def simp_thms)
qed

section \<open>The gateway: fragment routes and version selection\<close>

text \<open>The example gateway is the one the constructor builds from the example
  configuration.\<close>

lemma ex_gateway_built: "new_GatewayBFF ex_require ex_gateway_config = Inr ex_gateway"
  by (simp add: new_GatewayBFF_def new_FragmentBFF_def ex_gateway_config_def ex_gateway_def
      ex_product_def ex_basket_def ex_product_bff_def ex_basket_bff_def ex_require_def
      js_get_def)

text \<open>
  C9, evaluated on the code. On a gateway whose fragments are \<^verbatim>\<open>product\<close> and
  \<^verbatim>\<open>basket\<close>, \<^verbatim>\<open>renderFragment\<close> with the unregistered name \<^verbatim>\<open>search\<close> rejects
  with \<^verbatim>\<open>Failed to find fragment: search\<close>. With the unregistered name
  \<^verbatim>\<open>constructor\<close>, which every object inherits, the test of line 136 passes and the
  call rejects with a \<^verbatim>\<open>TypeError\<close> instead; in neither case is content returned.
\<close>

theorem inherited_name_not_reported_missing:
  "new_GatewayBFF ex_require ex_gateway_config = Inr ex_gateway \<and>
   gateway_fragments ex_gateway ''constructor'' = None \<and>
   ''constructor'' \<notin> bff_name ` set (gwc_fragments ex_gateway_config) \<and>
   renderFragment ex_stringify ex_gateway ''constructor'' (Some PREVIEW) ''main'' None =
     Inl (TypeError ''this.fragments[fragmentName].render is not a function'') \<and>
   gateway_fragments ex_gateway ''search'' = None \<and>
   renderFragment ex_stringify ex_gateway ''search'' (Some PREVIEW) ''main'' None =
     Inl (Error ''Failed to find fragment: search'')"
  using ex_gateway_built
  by (simp add: renderFragment_def js_get_def object_prototype_names_def ex_gateway_def
      ex_gateway_config_def ex_product_def ex_basket_def)

text \<open>
  The handler of a fragment's content route, for a registered fragment: it sets one
  status, 200, exactly when the fragment's render succeeds. When the render fails, the
  handler makes no call on the response and its promise is rejected with the render's
  error; the response to the request is then left to the server the handler was added
  to (\<^verbatim>\<open>./server\<close>).
\<close>

lemma route_status_only_200:
  "gateway_fragments gw (bff_name fragmentConfig) = Some f \<Longrightarrow>
   (\<forall>e. FragmentBFF_render f [] (req_cookies req (bff_testCookie fragmentConfig)) = Inl e \<longrightarrow>
      fragment_route_handler K JSON_stringify gw fragmentConfig req = ([], Some e)) \<and>
   (\<forall>c. FragmentBFF_render f [] (req_cookies req (bff_testCookie fragmentConfig)) = Inr c \<longrightarrow>
      snd (fragment_route_handler K JSON_stringify gw fragmentConfig req) = None \<and>
      statuses (fst (fragment_route_handler K JSON_stringify gw fragmentConfig req)) = [200] \<and>
      list_all is_2xx (statuses (fst (fragment_route_handler K JSON_stringify gw fragmentConfig req))))"
  by (simp add: fragment_route_handler_def renderFragment_def js_get_def Let_def is_2xx_def
      split: FRAGMENT_RENDER_MODES.splits)

lemma failing_render_makes_no_call:
  "FragmentBFF_render ex_basket_bff [] (req_cookies ex_plain_request (bff_testCookie ex_basket)) =
     Inl (Error ''Failed to find data handler for fragment. Fragment: basket, Version: 1.0.0'') \<and>
   fragment_route_handler ex_constants ex_stringify ex_gateway ex_basket ex_plain_request =
     ([], Some (Error ''Failed to find data handler for fragment. Fragment: basket, Version: 1.0.0''))"
  by (simp add: fragment_route_handler_def renderFragment_def FragmentBFF_render_def
      version_or_live_def js_get_def ex_gateway_def ex_basket_bff_def ex_basket_def ex_product_def
      ex_plain_request_def ex_handler_def ex_render_def ex_constants_def)

text \<open>
  C4, evaluated on the code. A content request whose test cookie names a version the
  fragment does not have (\<^verbatim>\<open>9.9.9\<close>, the only version being the live \<^verbatim>\<open>1.0.0\<close>) is
  not served by the live version's handler: \<^verbatim>\<open>FragmentBFF.render\<close> throws, and the
  route handler rejects without a response. The same cookie makes
  \<^verbatim>\<open>FragmentBFF.placeholder\<close> and the API middleware select the live version.
\<close>

theorem unknown_version_cookie_not_live:
  "map_of (bff_versions ex_product) ''9.9.9'' = None \<and>
   bff_version ex_product = ''1.0.0'' \<and>
   req_cookies ex_pinned_request (bff_testCookie ex_product) = Some ''9.9.9'' \<and>
   FragmentBFF_render ex_product_bff [] (Some ''9.9.9'') =
     Inl (Error ''Failed to find fragment version. Fragment: product, Version: 9.9.9'') \<and>
   fragment_route_handler ex_constants ex_stringify ex_gateway ex_product ex_pinned_request =
     ([], Some (Error ''Failed to find fragment version. Fragment: product, Version: 9.9.9'')) \<and>
   FragmentBFF_render ex_product_bff [] (Some ''1.0.0'') = Inr [(''main'', ''Product Content'')] \<and>
   FragmentBFF_placeholder ex_product_bff [] (Some ''9.9.9'') = Inr ''Product Placeholder'' \<and>
   requestVersion ex_api (req_cookies ex_pinned_request) = ''1.0.0''"
  by (simp add: fragment_route_handler_def renderFragment_def FragmentBFF_render_def
      FragmentBFF_placeholder_def requestVersion_def template_string_def js_get_def
      object_prototype_names_def version_or_live_def ex_gateway_def ex_product_bff_def
      ex_product_def ex_pinned_request_def ex_handler_def ex_render_def ex_constants_def
      ex_api_def)

section \<open>The fragment content client\<close>

text \<open>
  C7. \<^verbatim>\<open>getPlaceholder\<close> resolves to the empty string and requests nothing when the
  fragment has no descriptor or its descriptor does not declare placeholder support.
  When the descriptor declares it, exactly one request is made, to
  \<^verbatim>\<open><fragmentUrl>/placeholder\<close>, and the result is the text received, or the empty
  string when the request fails.
\<close>

theorem placeholder_only_when_declared:
  "((fs_config f = None \<or> (\<exists>c. fs_config f = Some c \<and> placeholder (render c) \<noteq> Some True)) \<longrightarrow>
      getPlaceholder net f = ([], [])) \<and>
   (\<forall>c. fs_config f = Some c \<and> placeholder (render c) = Some True \<longrightarrow>
      snd (getPlaceholder net f) = [template_string (fragmentUrl f) @ ''/placeholder''] \<and>
      fst (getPlaceholder net f) =
        (case net (template_string (fragmentUrl f) @ ''/placeholder'') of
           None \<Rightarrow> [] | Some text_html \<Rightarrow> text_html))"
  by (auto simp add: getPlaceholder_def Let_def split: option.splits)

theorem placeholder_only_when_declared_witness:
  "fs_config ex_unconfigured_fragment = None \<and>
   getPlaceholder ex_net_placeholder ex_unconfigured_fragment = ([], []) \<and>
   fs_config ex_storefront_fragment = Some ex_fragment \<and>
   placeholder (render ex_fragment) \<noteq> Some True \<and>
   getPlaceholder ex_net_placeholder ex_storefront_fragment = ([], []) \<and>
   placeholder (render (the (fs_config ex_placeholder_fragment))) = Some True \<and>
   getPlaceholder ex_net_placeholder ex_placeholder_fragment =
     (''Product Placeholder'', [''http://localhost:4446/product/placeholder''])"
  using placeholder_only_when_declared [of ex_unconfigured_fragment ex_net_placeholder]
    placeholder_only_when_declared [of ex_storefront_fragment ex_net_placeholder]
    placeholder_only_when_declared [of ex_placeholder_fragment ex_net_placeholder]
  by (simp add: ex_unconfigured_fragment_def ex_storefront_fragment_def
      ex_placeholder_fragment_def ex_fragment_def ex_render_def ex_net_placeholder_def
      template_string_def prod_eq_iff)

text \<open>
  C2. \<^verbatim>\<open>getContent\<close> resolves to the same result, status 500 with no partials, when
  the fragment has no descriptor, and when the request it issues times out or fails in
  transport; in none of these cases is its promise rejected.
\<close>

theorem content_failure_uniform:
  "(fs_config f = None \<longrightarrow>
      getContent K url_parse qs_stringify net f attribs req = Inr failed_content) \<and>
   (\<forall>c route. fs_config f = Some c \<and>
        routeRequest K url_parse qs_stringify f attribs req = Inr route \<and>
        (net (template_string (fragmentUrl f) @ route) (requestConfiguration K c req) = Timeout \<or>
         net (template_string (fragmentUrl f) @ route) (requestConfiguration K c req) =
           TransportError) \<longrightarrow>
      getContent K url_parse qs_stringify net f attribs req = Inr failed_content) \<and>
   status failed_content = 500 \<and> html failed_content = []"
  by (auto simp add: getContent_def failed_content_def)

theorem content_failure_uniform_witness:
  "fs_config ex_unconfigured_fragment = None \<and>
   getContent ex_constants ex_url_parse ex_qs_stringify ex_net_timeout ex_unconfigured_fragment
     Map.empty (Some ex_caller_request) = Inr \<lparr>status = 500, html = []\<rparr> \<and>
   fs_config ex_storefront_fragment = Some ex_fragment \<and>
   routeRequest ex_constants ex_url_parse ex_qs_stringify ex_storefront_fragment Map.empty
     (Some ex_caller_request) = Inr ''/detail?__renderMode=stream&id=7'' \<and>
   ex_net_timeout (template_string (fragmentUrl ex_storefront_fragment) @
       ''/detail?__renderMode=stream&id=7'')
     (requestConfiguration ex_constants ex_fragment (Some ex_caller_request)) = Timeout \<and>
   getContent ex_constants ex_url_parse ex_qs_stringify ex_net_timeout ex_storefront_fragment
     Map.empty (Some ex_caller_request) = Inr \<lparr>status = 500, html = []\<rparr>"
proof -
  have r: "routeRequest ex_constants ex_url_parse ex_qs_stringify ex_storefront_fragment Map.empty
     (Some ex_caller_request) = Inr ''/detail?__renderMode=stream&id=7''"
    by (simp add: routeRequest_def content_query_def ex_constants_def ex_url_parse_def
        ex_qs_stringify_def ex_storefront_fragment_def ex_caller_request_def)
  have c: "fs_config ex_storefront_fragment = Some ex_fragment"
    by (simp add: ex_storefront_fragment_def)
  have u: "fs_config ex_unconfigured_fragment = None"
    by (simp add: ex_unconfigured_fragment_def)
  show ?thesis
    using content_failure_uniform [of ex_unconfigured_fragment ex_constants ex_url_parse
        ex_qs_stringify ex_net_timeout Map.empty "Some ex_caller_request"]
      content_failure_uniform [of ex_storefront_fragment ex_constants ex_url_parse
        ex_qs_stringify ex_net_timeout Map.empty "Some ex_caller_request"] r c u
    by (simp add: ex_net_timeout_def failed_content_def)
qed




end
